theory Spec2Isabelle
  imports Complex_Main "HOL-Library.Word"
begin

unbundle bit_operations_syntax

section \<open>PID controller (pid.c)\<close>

text \<open>
  The C type \<open>float\<close> is modelled by \<open>real\<close>: the thermocouple readings (multiples of
  0.25 below 2048 in magnitude) and the integer profile targets are exact in both, and the
  properties below are about which branch runs and which fields are written. Rounding,
  infinities and NaN are outside the model; a division by zero is 0 in HOL.
\<close>

record PID_cfg_t =
  Kp :: real
  Ki :: real
  Kd :: real
  tau :: real
  Ts :: real
  out_max :: real
  out_min :: real

record PID_t =
  Kp :: real
  Ki :: real
  Kd :: real
  tau :: real
  Ts :: real
  out_lim_max :: real
  out_lim_min :: real
  integral :: real
  derivative :: real
  prev_error :: real
  prev_measurement :: real
  proportional :: real
  out :: real

text \<open>\<^verbatim>\<open>#define SAMESIGN(X, Y) ((X) <= 0) == ((Y) <= 0)\<close>\<close>

definition SAMESIGN :: "real \<Rightarrow> real \<Rightarrow> bool" where
  "SAMESIGN X Y = ((X \<le> 0) = (Y \<le> 0))"

definition PID_Reset :: "PID_t \<Rightarrow> PID_t" where
  "PID_Reset pid =
     pid\<lparr>integral := 0, prev_error := 0, derivative := 0,
         prev_measurement := 0, out := 0, proportional := 0\<rparr>"

definition PID_Init :: "PID_t \<Rightarrow> PID_cfg_t \<Rightarrow> PID_t" where
  "PID_Init pid pid_cfg =
     (PID_Reset pid)\<lparr>Kp := PID_cfg_t.Kp pid_cfg, Ki := PID_cfg_t.Ki pid_cfg,
         Kd := PID_cfg_t.Kd pid_cfg, tau := PID_cfg_t.tau pid_cfg,
         Ts := PID_cfg_t.Ts pid_cfg, out_lim_max := out_max pid_cfg,
         out_lim_min := out_min pid_cfg\<rparr>"

text \<open>
  \<open>PID_Calculate\<close> returns the controller output together with the updated structure.
  Each binding is the value that the C statement of the same order stores in the field of
  that name (\<open>out1\<close> before the limits are applied, \<open>out2\<close> after); the fields read on the
  right are those of the structure as it was on entry, except where the C code reads a
  field it has just written, where the binding is used.
\<close>

definition PID_Calculate :: "PID_t \<Rightarrow> real \<Rightarrow> real \<Rightarrow> real \<times> PID_t" where
  "PID_Calculate pid sp measurement =
     (let error = sp - measurement;
          proportional1 = Kp pid * error;
          integral1 =
            (if (out pid = out_lim_max pid \<or> out pid = out_lim_min pid)
                \<and> SAMESIGN (out pid) error
             then integral pid
             else integral pid + 0.5 * Ki pid * Ts pid * (error + prev_error pid));
          derivative1 =
            - (2 * Kd pid * (measurement - prev_measurement pid)
               + (2 * tau pid - Ts pid) * derivative pid)
            / (2 * tau pid + Ts pid);
          out1 = proportional1 + integral1 + derivative1;
          out2 = (if out1 > out_lim_max pid then out_lim_max pid
                  else if out1 < out_lim_min pid then out_lim_min pid
                  else out1)
      in (out2, pid\<lparr>proportional := proportional1, integral := integral1,
                     derivative := derivative1, out := out2,
                     prev_error := error, prev_measurement := measurement\<rparr>))"

section \<open>Active objects and time events (active.c)\<close>

datatype mod_err_t =
    MOD_OK | MOD_ERR | MOD_ERR_ARG | MOD_ERR_RESOURCE | MOD_ERR_BAD_CMD
  | MOD_ERR_BUF_OVERRUN | MOD_ERR_NOT_INIT | MOD_ERR_BAD_INSTANCE | MOD_ERR_PERIPH
  | MOD_ERR_TIMEOUT | MOD_DID_NOTHING

datatype osStatus_t = osOK | osError | osErrorTimeout | osErrorResource | osErrorParameter

text \<open>An event is its signal; modules choose the signal type \<open>'s\<close>.\<close>

record 's Event =
  sig :: 's

text \<open>
  The message queue of the operating system: its capacity, fixed when the queue is
  created, and the messages waiting in it, oldest first.
\<close>

record 'm msg_queue =
  max_msgs :: nat
  msgs :: "'m list"

text \<open>
  Modelled from the spec: the queue primitive \<open>osMessageQueuePut\<close> of the operating
  system, called with a zero timeout. The spec describes a bounded FIFO queue whose put
  does not block and reports a full queue instead, leaving the queue as it was. A queue
  that was never created (a null handle) is a parameter error.
\<close>

definition osMessageQueuePut ::
    "'m msg_queue option \<Rightarrow> 'm \<Rightarrow> osStatus_t \<times> 'm msg_queue option" where
  "osMessageQueuePut mq m =
     (case mq of
        None \<Rightarrow> (osErrorParameter, None)
      | Some q \<Rightarrow>
          if length (msgs q) < max_msgs q
          then (osOK, Some (q\<lparr>msgs := msgs q @ [m]\<rparr>))
          else (osErrorResource, Some q))"

text \<open>
  The active object base class. Of its fields only the queue handle matters here:
  \<open>None\<close> until \<open>Active_start\<close> has created the queue.
\<close>

record 's Active =
  queue_id :: "'s Event msg_queue option"

definition Active_post :: "'s Active \<Rightarrow> 's Event \<Rightarrow> mod_err_t \<times> 's Active" where
  "Active_post act evt =
     (let (err, q) = osMessageQueuePut (queue_id act) evt
      in if err \<noteq> osOK then (MOD_ERR_TIMEOUT, act\<lparr>queue_id := q\<rparr>)
         else (MOD_OK, act\<lparr>queue_id := q\<rparr>))"

text \<open>
  A time event. The owner \<open>Active *ao\<close> is the address of an active object, here a key
  into a store of active objects.
\<close>

record 's TimeEvent =
  base :: "'s Event"
  ao :: nat
  timeout :: "32 word"
  reload :: "32 word"

text \<open>
  The registry \<open>time_events[0 .. num_time_events - 1]\<close> is the list of the registered
  time events. \<open>TimeEvent_ctor\<close> fails its assertion (and the program spins) when the ten
  slots are taken.
\<close>

definition TimeEvent_ctor ::
    "'s TimeEvent list \<Rightarrow> 's \<Rightarrow> nat \<Rightarrow> 's TimeEvent list option" where
  "TimeEvent_ctor time_events s owner =
     (if length time_events < 10
      then Some (time_events @ [\<lparr>base = \<lparr>sig = s\<rparr>, ao = owner, timeout = 0, reload = 0\<rparr>])
      else None)"

text \<open>
  \<open>TimeEvent_arm\<close> also starts the one-second tick source on the first arming of any
  time event: the static flag \<open>first_arm\<close> is passed in and returned. The timer of the
  operating system is taken to be created and started successfully.
\<close>

definition TimeEvent_arm ::
    "bool \<Rightarrow> 's TimeEvent \<Rightarrow> 32 word \<Rightarrow> 32 word \<Rightarrow> bool \<times> 's TimeEvent" where
  "TimeEvent_arm first_arm time_evt tmo rel =
     (let time_evt = time_evt\<lparr>timeout := tmo, reload := rel\<rparr>
      in if first_arm = False then (True, time_evt) else (first_arm, time_evt))"

definition TimeEvent_disarm :: "'s TimeEvent \<Rightarrow> 's TimeEvent" where
  "TimeEvent_disarm time_evt = time_evt\<lparr>timeout := 0\<rparr>"

text \<open>
  One pass of the loop body of \<open>TimeEvent_tick\<close> for the time event \<open>t\<close>, over the store
  of active objects. The third component tells whether \<open>Active_post\<close> was called.
\<close>

definition tick_body ::
    "'s TimeEvent \<Rightarrow> (nat \<Rightarrow> 's Active) \<Rightarrow> 's TimeEvent \<times> (nat \<Rightarrow> 's Active) \<times> bool" where
  "tick_body t acts =
     (if timeout t > 0
      then let t1 = t\<lparr>timeout := timeout t - 1\<rparr>
           in if timeout t1 = 0
              then (t1\<lparr>timeout := reload t1\<rparr>,
                    acts(ao t1 := snd (Active_post (acts (ao t1)) (base t1))),
                    True)
              else (t1, acts, False)
      else (t, acts, False))"

text \<open>
  The loop of \<open>TimeEvent_tick\<close> from index \<open>i\<close> on. It returns the time events as the
  tick leaves them, the store of active objects, and the calls of \<open>Active_post\<close> it made,
  in order: the index of the time event, its owner and the event posted.
\<close>

fun tick_loop ::
    "nat \<Rightarrow> 's TimeEvent list \<Rightarrow> (nat \<Rightarrow> 's Active)
     \<Rightarrow> 's TimeEvent list \<times> (nat \<Rightarrow> 's Active) \<times> (nat \<times> nat \<times> 's Event) list" where
  "tick_loop i [] acts = ([], acts, [])"
| "tick_loop i (t # ts) acts =
     (let (t1, acts1, posted) = tick_body t acts;
          (ts1, acts2, posts) = tick_loop (Suc i) ts acts1
      in (t1 # ts1, acts2, (if posted then [(i, ao t, base t)] else []) @ posts))"

definition TimeEvent_tick ::
    "'s TimeEvent list \<Rightarrow> (nat \<Rightarrow> 's Active)
     \<Rightarrow> 's TimeEvent list \<times> (nat \<Rightarrow> 's Active) \<times> (nat \<times> nat \<times> 's Event) list" where
  "TimeEvent_tick time_events acts = tick_loop 0 time_events acts"

text \<open>
  \<open>n\<close> consecutive ticks with no arming or disarming in between; the result carries the
  posts of each tick, first tick first.
\<close>

fun ticks ::
    "nat \<Rightarrow> 's TimeEvent list \<Rightarrow> (nat \<Rightarrow> 's Active)
     \<Rightarrow> 's TimeEvent list \<times> (nat \<Rightarrow> 's Active) \<times> (nat \<times> nat \<times> 's Event) list list" where
  "ticks 0 time_events acts = (time_events, acts, [])"
| "ticks (Suc n) time_events acts =
     (let (tes1, acts1, posts) = TimeEvent_tick time_events acts;
          (tes2, acts2, log) = ticks n tes1 acts1
      in (tes2, acts2, posts # log))"



section \<open>Thermocouple driver (MAX31855K.c)\<close>

datatype MAX31855K_err_t =
  MAX_OK | MAX_SHORT_VCC | MAX_SHORT_GND | MAX_OPEN | MAX_ZEROS | MAX_SPI_DMA_FAIL

text \<open>
  What stops a run of the C code without a result: a failed \<open>ASSERT\<close> (the program
  prints and spins forever), an array index outside the array, and a conversion of a
  \<open>float\<close> to an unsigned integer type that cannot hold its integral part (undefined in C).
\<close>

datatype fault = Assert_Failed | Index_Out_Of_Bounds | Cast_Out_Of_Range

text \<open>
  The environment's input to a read is the 32-bit frame \<open>data32\<close> that the SPI transfer
  of \<open>MAX31855K_RxBlocking\<close> delivers.
\<close>

definition MAX31855K_error_check :: "32 word \<Rightarrow> fault + MAX31855K_err_t" where
  "MAX31855K_error_check data32 =
     (if data32 = 0 then Inr MAX_ZEROS
      else if data32 AND push_bit 16 1 \<noteq> 0
      then (let fault_bits = (ucast (data32 AND 0x7) :: 8 word)
            in if fault_bits = 0x4 then Inr MAX_SHORT_VCC
               else if fault_bits = 0x2 then Inr MAX_SHORT_GND
               else if fault_bits = 0x1 then Inr MAX_OPEN
               else Inl Assert_Failed)
      else Inr MAX_OK)"

definition MAX31855K_RxBlocking :: "32 word \<Rightarrow> fault + MAX31855K_err_t" where
  "MAX31855K_RxBlocking data32 = MAX31855K_error_check data32"

text \<open>
  The 14-bit hot-junction field, sign-extended into an \<open>int16_t\<close> and scaled by the
  resolution \<open>HJ_RES = 0.25\<close>; the product is exact in \<open>float\<close>.
\<close>

definition MAX31855K_Get_HJ :: "32 word \<Rightarrow> real" where
  "MAX31855K_Get_HJ data =
     (let val = (if data AND push_bit 31 1 \<noteq> 0
                 then (ucast (0xC000 OR (drop_bit 18 data AND 0x3FFF)) :: 16 word)
                 else (ucast (drop_bit 18 data) :: 16 word))
      in real_of_int (sint val) * 0.25)"

section \<open>Reflow controller (reflow.c)\<close>

datatype Reflow_State =
  RESET_STATE | PREHEAT_STATE | SOAK_STATE | RAMPUP_STATE | PEAK_STATE | COOLDOWN_STATE

text \<open>The values of the enumerators, as C numbers them.\<close>

fun Reflow_State_val :: "Reflow_State \<Rightarrow> nat" where
  "Reflow_State_val RESET_STATE = 0"
| "Reflow_State_val PREHEAT_STATE = 1"
| "Reflow_State_val SOAK_STATE = 2"
| "Reflow_State_val RAMPUP_STATE = 3"
| "Reflow_State_val PEAK_STATE = 4"
| "Reflow_State_val COOLDOWN_STATE = 5"

definition NUM_REFLOW_STATES :: nat where
  "NUM_REFLOW_STATES = 6"

definition NUM_PROFILE_PHASES :: nat where
  "NUM_PROFILE_PHASES = NUM_REFLOW_STATES - 1"

datatype Reflow_Status = TRAN_STATUS | HANDLED_STATUS | IGNORE_STATUS | INIT_STATUS

datatype phase_type_t = REACHTEMP | REACHTIME

record Reflow_Phase =
  phase_type :: phase_type_t
  reach_temp :: "32 word"
  reach_time :: "32 word"

text \<open>
  The signals of the reflow controller: the two reserved signals of active.h and the
  four of reflow.h, in the order of their values.
\<close>

datatype ReflowSignal =
  INIT_SIG | ENTRY_SIG | START_REFLOW_SIG | REACH_TIME_SIG | REACH_TEMP_SIG | STOP_REFLOW_SIG

text \<open>
  The constant member \<open>reflow_phases\<close> of the one controller object, as its initialiser
  gives it; a field the initialiser leaves out is zero.
\<close>

definition reflow_phases :: "Reflow_Phase list" where
  "reflow_phases =
     [\<lparr>phase_type = REACHTEMP, reach_temp = 100, reach_time = 0\<rparr>,
      \<lparr>phase_type = REACHTIME, reach_temp = 150, reach_time = 120\<rparr>,
      \<lparr>phase_type = REACHTEMP, reach_temp = 215, reach_time = 0\<rparr>,
      \<lparr>phase_type = REACHTIME, reach_temp = 215, reach_time = 5\<rparr>,
      \<lparr>phase_type = REACHTEMP, reach_temp = 35, reach_time = 0\<rparr>]"

text \<open>
  The element \<open>reflow_phases[i]\<close>, for a signed index: outside \<open>[0, NUM_PROFILE_PHASES)\<close>
  the C code would read outside the array.
\<close>

definition reflow_phases_at :: "int \<Rightarrow> fault + Reflow_Phase" where
  "reflow_phases_at i =
     (if 0 \<le> i \<and> i < int NUM_PROFILE_PHASES then Inr (reflow_phases ! nat i)
      else Inl Index_Out_Of_Bounds)"

text \<open>
  The conversions \<open>(uint32_t)x\<close> and \<open>(uint16_t)x\<close> of a \<open>float\<close>: the fractional part
  is discarded; C leaves the result undefined when the integral part is not a value of
  the target type.
\<close>

definition float_trunc :: "real \<Rightarrow> int" where
  "float_trunc x = (if 0 \<le> x then \<lfloor>x\<rfloor> else \<lceil>x\<rceil>)"

definition float_to_uint32 :: "real \<Rightarrow> fault + 32 word" where
  "float_to_uint32 x =
     (if 0 \<le> float_trunc x \<and> float_trunc x < 2 ^ 32 then Inr (word_of_int (float_trunc x))
      else Inl Cast_Out_Of_Range)"

definition float_to_uint16 :: "real \<Rightarrow> fault + 16 word" where
  "float_to_uint16 x =
     (if 0 \<le> float_trunc x \<and> float_trunc x < 2 ^ 16 then Inr (word_of_int (float_trunc x))
      else Inl Cast_Out_Of_Range)"

text \<open>
  The controller object. Beside the fields of the C structure it holds the state of what
  its handles point to: the compare register of the PWM channel and whether the PWM
  output runs, and the periodic PID timer (\<open>None\<close> when stopped, its period when
  running). \<open>first_arm\<close> is the static flag of active.c that \<open>TimeEvent_arm\<close> reads and
  sets.
\<close>

record Reflow_Active =
  reflow_base :: "ReflowSignal Active"
  pwm_compare :: "32 word"
  pwm_running :: bool
  reflow_time_evt :: "ReflowSignal TimeEvent"
  pid_timer :: "32 word option"
  state :: Reflow_State
  pid_params :: PID_t
  step_size :: real
  setpoint :: real
  first_arm :: bool

definition readTemperature :: "32 word \<Rightarrow> fault + real option" where
  "readTemperature data32 =
     (case MAX31855K_RxBlocking data32 of
        Inl f \<Rightarrow> Inl f
      | Inr err \<Rightarrow>
          if err \<noteq> MAX_OK then Inr None else Inr (Some (MAX31855K_Get_HJ data32)))"

subsection \<open>Actions of the state machine\<close>

text \<open>
  An action gets the controller, the event (absent when the dispatcher runs an entry
  action) and the frame the thermocouple delivers if the action reads it. It returns its
  status and the controller as it leaves it, or the fault that stops the program.
\<close>

type_synonym ReflowAction =
  "Reflow_Active \<Rightarrow> ReflowSignal Event option \<Rightarrow> 32 word \<Rightarrow> fault + (Reflow_Status \<times> Reflow_Active)"

definition Reflow_reset_INIT :: ReflowAction where
  "Reflow_reset_INIT rao evt spi = Inr (INIT_STATUS, rao\<lparr>state := RESET_STATE\<rparr>)"

definition Reflow_reset_ENTRY :: ReflowAction where
  "Reflow_reset_ENTRY rao evt spi =
     Inr (HANDLED_STATUS,
          rao\<lparr>pwm_compare := 0, pwm_running := False,
              pid_params := PID_Reset (pid_params rao),
              pid_timer := None,
              reflow_time_evt := TimeEvent_disarm (reflow_time_evt rao)\<rparr>)"

definition Reflow_preheat_ENTRY :: ReflowAction where
  "Reflow_preheat_ENTRY rao evt spi =
     (let rao1 = rao\<lparr>pwm_running := True\<rparr>;
          rao2 = rao1\<lparr>setpoint :=
                   real (unat (reach_temp (reflow_phases ! (Reflow_State_val PREHEAT_STATE - 1))))\<rparr>
      in case float_to_uint32 (Ts (pid_params rao2) * 1000) of
           Inl f \<Rightarrow> Inl f
         | Inr period \<Rightarrow> Inr (HANDLED_STATUS, rao2\<lparr>pid_timer := Some period\<rparr>))"

definition Reflow_soak_ENTRY :: ReflowAction where
  "Reflow_soak_ENTRY rao evt spi =
     (let rao1 = rao\<lparr>step_size :=
                   real (unat (reach_temp (reflow_phases ! (Reflow_State_val SOAK_STATE - 1))
                               - reach_temp (reflow_phases ! (Reflow_State_val PREHEAT_STATE - 1))))
                   / (real (unat (reach_time (reflow_phases ! (Reflow_State_val SOAK_STATE - 1))))
                      * (1 / Ts (pid_params rao)))\<rparr>;
          (fa, te) = TimeEvent_arm (first_arm rao1) (reflow_time_evt rao1)
                       (reach_time (reflow_phases ! (Reflow_State_val SOAK_STATE - 1))) 0
      in Inr (HANDLED_STATUS, rao1\<lparr>reflow_time_evt := te, first_arm := fa\<rparr>))"

definition Reflow_rampup_ENTRY :: ReflowAction where
  "Reflow_rampup_ENTRY rao evt spi =
     Inr (HANDLED_STATUS,
          rao\<lparr>setpoint :=
                real (unat (reach_temp (reflow_phases ! (Reflow_State_val RAMPUP_STATE - 1))))\<rparr>)"

definition Reflow_peak_ENTRY :: ReflowAction where
  "Reflow_peak_ENTRY rao evt spi =
     (let rao1 = rao\<lparr>step_size := 0\<rparr>;
          (fa, te) = TimeEvent_arm (first_arm rao1) (reflow_time_evt rao1)
                       (reach_time (reflow_phases ! (Reflow_State_val PEAK_STATE - 1))) 0
      in Inr (HANDLED_STATUS, rao1\<lparr>reflow_time_evt := te, first_arm := fa\<rparr>))"

definition Reflow_cooldown_ENTRY :: ReflowAction where
  "Reflow_cooldown_ENTRY rao evt spi =
     Inr (HANDLED_STATUS,
          rao\<lparr>setpoint :=
                real (unat (reach_temp (reflow_phases ! (Reflow_State_val COOLDOWN_STATE - 1))))\<rparr>)"

definition Reflow_reset_START :: ReflowAction where
  "Reflow_reset_START rao evt spi =
     (case readTemperature spi of
        Inl f \<Rightarrow> Inl f
      | Inr None \<Rightarrow> Inr (HANDLED_STATUS, rao)
      | Inr (Some current_temp) \<Rightarrow>
          (case float_to_uint32 current_temp of
             Inl f \<Rightarrow> Inl f
           | Inr t \<Rightarrow>
               if t > reach_temp (reflow_phases ! (Reflow_State_val COOLDOWN_STATE - 1))
               then Inr (HANDLED_STATUS, rao)
               else Inr (TRAN_STATUS, rao\<lparr>state := PREHEAT_STATE\<rparr>)))"

definition Reflow_preheat_REACHTEMP :: ReflowAction where
  "Reflow_preheat_REACHTEMP rao evt spi = Inr (TRAN_STATUS, rao\<lparr>state := SOAK_STATE\<rparr>)"

definition Reflow_soak_REACHTIME :: ReflowAction where
  "Reflow_soak_REACHTIME rao evt spi = Inr (TRAN_STATUS, rao\<lparr>state := RAMPUP_STATE\<rparr>)"

definition Reflow_rampup_REACHTEMP :: ReflowAction where
  "Reflow_rampup_REACHTEMP rao evt spi = Inr (TRAN_STATUS, rao\<lparr>state := PEAK_STATE\<rparr>)"

definition Reflow_peak_REACHTIME :: ReflowAction where
  "Reflow_peak_REACHTIME rao evt spi = Inr (TRAN_STATUS, rao\<lparr>state := COOLDOWN_STATE\<rparr>)"

definition Reflow_cooldown_REACHTEMP :: ReflowAction where
  "Reflow_cooldown_REACHTEMP rao evt spi = Inr (TRAN_STATUS, rao\<lparr>state := RESET_STATE\<rparr>)"

definition Reflow_STOP :: ReflowAction where
  "Reflow_STOP rao evt spi =
     Inr (TRAN_STATUS, rao\<lparr>pid_timer := None, state := RESET_STATE\<rparr>)"

definition Reflow_ignore :: ReflowAction where
  "Reflow_ignore rao evt spi = Inr (IGNORE_STATUS, rao)"

text \<open>The state machine table, one equation per cell, rows and columns as in the source.\<close>

fun Reflow_state_table :: "Reflow_State \<Rightarrow> ReflowSignal \<Rightarrow> ReflowAction" where
  "Reflow_state_table RESET_STATE INIT_SIG = Reflow_reset_INIT"
| "Reflow_state_table RESET_STATE ENTRY_SIG = Reflow_reset_ENTRY"
| "Reflow_state_table RESET_STATE START_REFLOW_SIG = Reflow_reset_START"
| "Reflow_state_table RESET_STATE REACH_TIME_SIG = Reflow_ignore"
| "Reflow_state_table RESET_STATE REACH_TEMP_SIG = Reflow_ignore"
| "Reflow_state_table RESET_STATE STOP_REFLOW_SIG = Reflow_ignore"
| "Reflow_state_table PREHEAT_STATE INIT_SIG = Reflow_ignore"
| "Reflow_state_table PREHEAT_STATE ENTRY_SIG = Reflow_preheat_ENTRY"
| "Reflow_state_table PREHEAT_STATE START_REFLOW_SIG = Reflow_ignore"
| "Reflow_state_table PREHEAT_STATE REACH_TIME_SIG = Reflow_ignore"
| "Reflow_state_table PREHEAT_STATE REACH_TEMP_SIG = Reflow_preheat_REACHTEMP"
| "Reflow_state_table PREHEAT_STATE STOP_REFLOW_SIG = Reflow_STOP"
| "Reflow_state_table SOAK_STATE INIT_SIG = Reflow_ignore"
| "Reflow_state_table SOAK_STATE ENTRY_SIG = Reflow_soak_ENTRY"
| "Reflow_state_table SOAK_STATE START_REFLOW_SIG = Reflow_ignore"
| "Reflow_state_table SOAK_STATE REACH_TIME_SIG = Reflow_soak_REACHTIME"
| "Reflow_state_table SOAK_STATE REACH_TEMP_SIG = Reflow_ignore"
| "Reflow_state_table SOAK_STATE STOP_REFLOW_SIG = Reflow_STOP"
| "Reflow_state_table RAMPUP_STATE INIT_SIG = Reflow_ignore"
| "Reflow_state_table RAMPUP_STATE ENTRY_SIG = Reflow_rampup_ENTRY"
| "Reflow_state_table RAMPUP_STATE START_REFLOW_SIG = Reflow_ignore"
| "Reflow_state_table RAMPUP_STATE REACH_TIME_SIG = Reflow_ignore"
| "Reflow_state_table RAMPUP_STATE REACH_TEMP_SIG = Reflow_rampup_REACHTEMP"
| "Reflow_state_table RAMPUP_STATE STOP_REFLOW_SIG = Reflow_STOP"
| "Reflow_state_table PEAK_STATE INIT_SIG = Reflow_ignore"
| "Reflow_state_table PEAK_STATE ENTRY_SIG = Reflow_peak_ENTRY"
| "Reflow_state_table PEAK_STATE START_REFLOW_SIG = Reflow_ignore"
| "Reflow_state_table PEAK_STATE REACH_TIME_SIG = Reflow_peak_REACHTIME"
| "Reflow_state_table PEAK_STATE REACH_TEMP_SIG = Reflow_ignore"
| "Reflow_state_table PEAK_STATE STOP_REFLOW_SIG = Reflow_STOP"
| "Reflow_state_table COOLDOWN_STATE INIT_SIG = Reflow_ignore"
| "Reflow_state_table COOLDOWN_STATE ENTRY_SIG = Reflow_cooldown_ENTRY"
| "Reflow_state_table COOLDOWN_STATE START_REFLOW_SIG = Reflow_ignore"
| "Reflow_state_table COOLDOWN_STATE REACH_TIME_SIG = Reflow_ignore"
| "Reflow_state_table COOLDOWN_STATE REACH_TEMP_SIG = Reflow_cooldown_REACHTEMP"
| "Reflow_state_table COOLDOWN_STATE STOP_REFLOW_SIG = Reflow_STOP"

subsection \<open>The event handler\<close>

text \<open>
  The handler returns the cells of the table whose action it invoked, in order, and the
  controller it leaves (or the fault of the action that stopped the program). Both
  assertions of the C handler hold for every value of the two enumerations, so they have
  no branch here.
\<close>

definition reflow_evt_handler ::
    "Reflow_Active \<Rightarrow> ReflowSignal Event \<Rightarrow> 32 word
     \<Rightarrow> (Reflow_State \<times> ReflowSignal) list \<times> (fault + Reflow_Active)" where
  "reflow_evt_handler rao evt spi =
     (case Reflow_state_table (state rao) (sig evt) rao (Some evt) spi of
        Inl f \<Rightarrow> ([(state rao, sig evt)], Inl f)
      | Inr (stat, rao1) \<Rightarrow>
          if stat = TRAN_STATUS
          then ([(state rao, sig evt), (state rao1, ENTRY_SIG)],
                map_sum id snd (Reflow_state_table (state rao1) ENTRY_SIG rao1 None spi))
          else if stat = INIT_STATUS
          then ([(state rao, sig evt), (state rao1, ENTRY_SIG)],
                map_sum id snd (Reflow_state_table (state rao1) ENTRY_SIG rao1 None spi))
          else ([(state rao, sig evt)], Inr rao1))"

subsection \<open>The control tick\<close>

text \<open>
  The test of the leeway around the target of a \<open>REACHTEMP\<close> phase, on the converted
  reading, in the unsigned 32-bit arithmetic of the source.
\<close>

definition reach_temp_leeway :: "32 word \<Rightarrow> 32 word \<Rightarrow> bool" where
  "reach_temp_leeway target reading \<longleftrightarrow> target > reading - 2 \<and> target < reading + 2"

text \<open>
  The phase block of \<open>reflow_pid_iteration\<close>: the events it posts and the controller it
  leaves.
\<close>

definition reflow_phase_check ::
    "Reflow_Active \<Rightarrow> real \<Rightarrow> fault + (ReflowSignal list \<times> Reflow_Active)" where
  "reflow_phase_check rao temp_reading =
     (case reflow_phases_at (int (Reflow_State_val (state rao)) - 1) of
        Inl f \<Rightarrow> Inl f
      | Inr ph \<Rightarrow>
          if phase_type ph = REACHTEMP
          then (case float_to_uint32 temp_reading of
                  Inl f \<Rightarrow> Inl f
                | Inr t \<Rightarrow>
                    if reach_temp_leeway (reach_temp ph) t
                    then Inr ([REACH_TEMP_SIG],
                           rao\<lparr>reflow_base :=
                                 snd (Active_post (reflow_base rao) \<lparr>sig = REACH_TEMP_SIG\<rparr>)\<rparr>)
                    else Inr ([], rao))
          else Inr ([], rao\<lparr>setpoint := setpoint rao + step_size rao\<rparr>))"

text \<open>
  \<open>reflow_pid_iteration\<close> returns the signals it passed to \<open>Active_post\<close>, in order, and
  the controller it leaves or the fault that stopped it.
\<close>

definition reflow_pid_iteration ::
    "Reflow_Active \<Rightarrow> 32 word \<Rightarrow> ReflowSignal list \<times> (fault + Reflow_Active)" where
  "reflow_pid_iteration rao spi =
     (case readTemperature spi of
        Inl f \<Rightarrow> ([], Inl f)
      | Inr r \<Rightarrow>
          let temp_reading = (case r of None \<Rightarrow> 0 | Some t \<Rightarrow> t);
              status = (r \<noteq> None);
              posts1 = (if status = False then [STOP_REFLOW_SIG] else []);
              rao1 = (if status = False
                      then rao\<lparr>reflow_base :=
                             snd (Active_post (reflow_base rao) \<lparr>sig = STOP_REFLOW_SIG\<rparr>)\<rparr>
                      else rao)
          in case reflow_phase_check rao1 temp_reading of
               Inl f \<Rightarrow> (posts1, Inl f)
             | Inr (posts2, rao2) \<Rightarrow>
                 let (pwm_value, pid) =
                       PID_Calculate (pid_params rao2) (setpoint rao2) temp_reading;
                     rao3 = rao2\<lparr>pid_params := pid\<rparr>
                 in case float_to_uint16 pwm_value of
                      Inl f \<Rightarrow> (posts1 @ posts2, Inl f)
                    | Inr c \<Rightarrow> (posts1 @ posts2, Inr (rao3\<lparr>pwm_compare := ucast c\<rparr>)))"

subsection \<open>Initialisation\<close>

text \<open>
  The controller after \<open>reflow_init\<close> and \<open>reflow_start\<close>: the static object is zero but
  for its phases, the PID parameters are those of reflow.h, and the queue holds up to
  five events.
\<close>

definition reflow_pid_cfg :: PID_cfg_t where
  "reflow_pid_cfg =
     \<lparr>PID_cfg_t.Kp = 10, PID_cfg_t.Ki = 0, PID_cfg_t.Kd = 0, PID_cfg_t.tau = 1,
      PID_cfg_t.Ts = 0.5, out_max = 4095, out_min = 0\<rparr>"

definition reflow_ao_started :: Reflow_Active where
  "reflow_ao_started =
     \<lparr>reflow_base = \<lparr>queue_id = Some \<lparr>max_msgs = 5, msgs = []\<rparr>\<rparr>,
      pwm_compare = 0, pwm_running = False,
      reflow_time_evt = \<lparr>base = \<lparr>sig = REACH_TIME_SIG\<rparr>, ao = 0, timeout = 0, reload = 0\<rparr>,
      pid_timer = None,
      state = RESET_STATE,
      pid_params = PID_Init
        \<lparr>Kp = 0, Ki = 0, Kd = 0, tau = 0, Ts = 0, out_lim_max = 0, out_lim_min = 0,
         integral = 0, derivative = 0, prev_error = 0, prev_measurement = 0,
         proportional = 0, out = 0\<rparr> reflow_pid_cfg,
      step_size = 0, setpoint = 0, first_arm = False\<rparr>"

subsection \<open>Concrete objects used in evaluations\<close>





text \<open>
  Frames of the thermocouple: the hot-junction field holds four times the temperature.
  \<open>0x1E40000\<close> reads 30.25, \<open>0x2380000\<close> reads 35.5, \<open>0x2400000\<close> reads 36,
  \<open>0x6280000\<close> reads 98.5 and \<open>0x6380000\<close> reads 99.5 degrees; the frame \<open>0\<close> is a
  failed read.
\<close>

definition rao_preheat :: Reflow_Active where
  "rao_preheat = reflow_ao_started\<lparr>state := PREHEAT_STATE, setpoint := 100\<rparr>"

definition rao_soak :: Reflow_Active where
  "rao_soak = reflow_ao_started\<lparr>state := SOAK_STATE, setpoint := 100, step_size := 1\<rparr>"

text \<open>Two concrete controllers used to evaluate the iteration below.\<close>

definition pid_pinned :: PID_t where
  "pid_pinned = \<lparr>Kp = 100, Ki = 2, Kd = 0, tau = 1, Ts = 0.5,
      out_lim_max = 4095, out_lim_min = 0, integral = 7, derivative = 0,
      prev_error = 80, prev_measurement = 20, proportional = 8000, out = 4095\<rparr>"

definition pid_nonpositive_max :: PID_t where
  "pid_nonpositive_max = \<lparr>Kp = 1, Ki = 1, Kd = 0, tau = 1, Ts = 1,
      out_lim_max = 0, out_lim_min = - 10, integral = 0, derivative = 0,
      prev_error = 0, prev_measurement = 0, proportional = 0, out = 0\<rparr>"

section \<open>Properties of the PID controller\<close>

text \<open>
  Claim C7. For every PID state, \<open>PID_Reset\<close> sets the integral, derivative, previous
  error, previous measurement, proportional and output fields to zero and leaves the
  gains \<open>Kp\<close>, \<open>Ki\<close>, \<open>Kd\<close>, the filter constant \<open>tau\<close>, the sample time \<open>Ts\<close> and both
  output limits unchanged.
\<close>

theorem PID_Reset_frame:
  "integral (PID_Reset pid) = 0 \<and> derivative (PID_Reset pid) = 0
   \<and> prev_error (PID_Reset pid) = 0 \<and> prev_measurement (PID_Reset pid) = 0
   \<and> proportional (PID_Reset pid) = 0 \<and> out (PID_Reset pid) = 0
   \<and> Kp (PID_Reset pid) = Kp pid \<and> Ki (PID_Reset pid) = Ki pid
   \<and> Kd (PID_Reset pid) = Kd pid \<and> tau (PID_Reset pid) = tau pid
   \<and> Ts (PID_Reset pid) = Ts pid
   \<and> out_lim_max (PID_Reset pid) = out_lim_max pid
   \<and> out_lim_min (PID_Reset pid) = out_lim_min pid"
  by (simp add: PID_Reset_def)

lemma PID_Calculate_params:
  "Kp (snd (PID_Calculate pid sp m)) = Kp pid"
  "Ki (snd (PID_Calculate pid sp m)) = Ki pid"
  "Kd (snd (PID_Calculate pid sp m)) = Kd pid"
  "tau (snd (PID_Calculate pid sp m)) = tau pid"
  "Ts (snd (PID_Calculate pid sp m)) = Ts pid"
  "out_lim_max (snd (PID_Calculate pid sp m)) = out_lim_max pid"
  "out_lim_min (snd (PID_Calculate pid sp m)) = out_lim_min pid"
  by (simp_all add: PID_Calculate_def Let_def)

lemma PID_Calculate_memory:
  "prev_error (snd (PID_Calculate pid sp m)) = sp - m"
  "prev_measurement (snd (PID_Calculate pid sp m)) = m"
  "proportional (snd (PID_Calculate pid sp m)) = Kp pid * (sp - m)"
  "fst (PID_Calculate pid sp m) = out (snd (PID_Calculate pid sp m))"
  by (simp_all add: PID_Calculate_def Let_def)

lemma PID_Calculate_integral:
  "integral (snd (PID_Calculate pid sp m)) =
     (if (out pid = out_lim_max pid \<or> out pid = out_lim_min pid)
         \<and> SAMESIGN (out pid) (sp - m)
      then integral pid
      else integral pid + 0.5 * Ki pid * Ts pid * ((sp - m) + prev_error pid))"
  by (simp add: PID_Calculate_def Let_def)

lemma PID_Calculate_clamped:
  "out_lim_min pid \<le> out_lim_max pid \<Longrightarrow>
   out_lim_min pid \<le> fst (PID_Calculate pid sp m) \<and> fst (PID_Calculate pid sp m) \<le> out_lim_max pid"
  by (simp add: PID_Calculate_def Let_def)

text \<open>
  Claim C3, as the code has it. In one iteration with error \<open>e = setpoint - measurement\<close>:
  if the stored output equals the upper or the lower limit and \<open>SAMESIGN\<close> holds of that
  output and \<open>e\<close> (both are \<open>\<le> 0\<close> or both are \<open>> 0\<close>), the integral term is unchanged;
  in every other case it becomes its previous value plus \<open>0.5 * Ki * Ts * (e + prev_error)\<close>.
  When the upper limit is positive and the output is pinned at it, an error \<open>> 0\<close> leaves
  the integral as it was and an error \<open>\<le> 0\<close> accumulates; and if the output is still
  pinned after a held iteration, the next iteration with an error \<open>\<le> 0\<close> accumulates
  with the held iteration's error as previous error.
\<close>

theorem PID_Calculate_anti_windup:
  "integral (snd (PID_Calculate pid sp m)) =
     (if (out pid = out_lim_max pid \<or> out pid = out_lim_min pid)
         \<and> SAMESIGN (out pid) (sp - m)
      then integral pid
      else integral pid + 0.5 * Ki pid * Ts pid * ((sp - m) + prev_error pid))
   \<and> (out pid = out_lim_max pid \<and> 0 < out_lim_max pid \<and> 0 < sp - m
        \<longrightarrow> integral (snd (PID_Calculate pid sp m)) = integral pid)
   \<and> (out pid = out_lim_max pid \<and> 0 < out_lim_max pid \<and> sp - m \<le> 0
        \<longrightarrow> integral (snd (PID_Calculate pid sp m))
            = integral pid + 0.5 * Ki pid * Ts pid * ((sp - m) + prev_error pid))
   \<and> (out pid = out_lim_max pid \<and> 0 < out_lim_max pid \<and> 0 < sp - m
        \<and> out (snd (PID_Calculate pid sp m)) = out_lim_max pid \<and> sp' - m' \<le> 0
        \<longrightarrow> integral (snd (PID_Calculate (snd (PID_Calculate pid sp m)) sp' m'))
            = integral pid + 0.5 * Ki pid * Ts pid * ((sp' - m') + (sp - m)))"
proof -
  let ?p1 = "snd (PID_Calculate pid sp m)"
  have held: "integral ?p1 = integral pid"
    if "out pid = out_lim_max pid" "0 < out_lim_max pid" "0 < sp - m"
    using that by (simp add: PID_Calculate_integral SAMESIGN_def)
  have resumed: "integral (snd (PID_Calculate q s k))
        = integral q + 0.5 * Ki q * Ts q * ((s - k) + prev_error q)"
    if "out q = out_lim_max q" "0 < out_lim_max q" "s - k \<le> 0" for q s k
    using that by (simp add: PID_Calculate_integral SAMESIGN_def)
  have two: "integral (snd (PID_Calculate ?p1 sp' m'))
        = integral pid + 0.5 * Ki pid * Ts pid * ((sp' - m') + (sp - m))"
    if h: "out pid = out_lim_max pid" "0 < out_lim_max pid" "0 < sp - m"
      and p: "out ?p1 = out_lim_max pid" and e: "sp' - m' \<le> 0"
  proof -
    have "out ?p1 = out_lim_max ?p1" "0 < out_lim_max ?p1"
      using p h(2) by (simp_all add: PID_Calculate_params)
    from resumed [OF this e] held [OF h] show ?thesis
      by (simp add: PID_Calculate_params PID_Calculate_memory)
  qed
  show ?thesis
    using held resumed [of pid sp m] two by (simp add: PID_Calculate_integral)
qed

theorem PID_Calculate_anti_windup_witness:
  "out pid_pinned = out_lim_max pid_pinned \<and> 0 < out_lim_max pid_pinned
   \<and> (0::real) < 100 - 25
   \<and> integral (snd (PID_Calculate pid_pinned 100 25)) = integral pid_pinned
   \<and> out (snd (PID_Calculate pid_pinned 100 25)) = out_lim_max pid_pinned
   \<and> (100::real) - 101 \<le> 0
   \<and> integral (snd (PID_Calculate (snd (PID_Calculate pid_pinned 100 25)) 100 101)) = 44"
proof -
  have a: "out pid_pinned = out_lim_max pid_pinned" "0 < out_lim_max pid_pinned"
    by (simp_all add: pid_pinned_def)
  have b: "out (snd (PID_Calculate pid_pinned 100 25)) = out_lim_max pid_pinned"
    by (simp add: PID_Calculate_def Let_def pid_pinned_def SAMESIGN_def)
  have c: "integral pid_pinned = 7" "Ki pid_pinned = 2" "Ts pid_pinned = 0.5"
    by (simp_all add: pid_pinned_def)
  show ?thesis
    using PID_Calculate_anti_windup [of pid_pinned 100 25 100 101] a b c by simp
qed

text \<open>
  As stated for every controller, the claim's special case fails when the upper limit is
  not positive: with \<open>out_lim_max = 0\<close> the output pinned at it counts as non-positive, an
  error \<open>> 0\<close> does not have its sign, and the integral accumulates.
\<close>

theorem PID_Calculate_anti_windup_counterexample:
  "out pid_nonpositive_max = out_lim_max pid_nonpositive_max \<and> (0::real) < 2 - 0
   \<and> integral pid_nonpositive_max = 0
   \<and> integral (snd (PID_Calculate pid_nonpositive_max 2 0)) = 1"
  by (simp add: PID_Calculate_def Let_def pid_nonpositive_max_def SAMESIGN_def)

section \<open>Properties of the active-object framework\<close>











lemma ticks_log_length: "length (snd (snd (ticks m tes acts))) = m"
  by (induction m arbitrary: tes acts) (simp_all add: split_beta Let_def)











section \<open>Properties of the reflow controller\<close>

subsection \<open>Conversions, readings and the leeway test\<close>

lemma float_trunc_nonneg: "0 \<le> float_trunc x \<longleftrightarrow> - 1 < x"
  by (auto simp: float_trunc_def)

lemma float_trunc_le: "0 \<le> n \<Longrightarrow> float_trunc x \<le> n \<longleftrightarrow> x < real_of_int n + 1"
  by (auto simp: float_trunc_def floor_le_iff ceiling_le_iff)

lemma float_trunc_ge: "0 < n \<Longrightarrow> n \<le> float_trunc x \<longleftrightarrow> real_of_int n \<le> x"
  by (auto simp: float_trunc_def le_floor_iff le_ceiling_iff)

lemma float_trunc_lt32: "x < 4294967296 \<Longrightarrow> float_trunc x < 4294967296"
  using float_trunc_le [of 4294967295 x] by simp

lemma float_to_uint32_Inr:
  "- 1 < x \<Longrightarrow> x < 4294967296 \<Longrightarrow> float_to_uint32 x = Inr (word_of_int (float_trunc x))"
  by (simp add: float_to_uint32_def float_trunc_nonneg float_trunc_lt32)

lemma float_to_uint32_Inl: "x \<le> - 1 \<Longrightarrow> float_to_uint32 x = Inl Cast_Out_Of_Range"
  by (simp add: float_to_uint32_def float_trunc_nonneg)

lemma unat_float_trunc:
  assumes "- 1 < x" "x < 4294967296"
  shows "unat (word_of_int (float_trunc x) :: 32 word) = nat (float_trunc x)"
proof -
  have "0 \<le> float_trunc x" "float_trunc x < 2 ^ 32"
    using assms by (simp_all add: float_trunc_nonneg float_trunc_lt32)
  then show ?thesis
    by (simp add: unat_eq_nat_uint uint_word_of_int_eq take_bit_int_eq_self)
qed

lemma sint16_range: "- 32768 \<le> sint w \<and> sint w < 32768" for w :: "16 word"
  using sint_ge [of w] sint_lt [of w] by simp

lemma MAX31855K_Get_HJ_range: "- 8192 \<le> MAX31855K_Get_HJ d \<and> MAX31855K_Get_HJ d < 8192"
proof -
  have "- 32768 \<le> real_of_int (sint w) \<and> real_of_int (sint w) < 32768" for w :: "16 word"
    using sint16_range [of w] by (metis of_int_le_iff of_int_less_iff of_int_numeral of_int_minus)
  then show ?thesis
    unfolding MAX31855K_Get_HJ_def Let_def
    by (simp add: field_simps)
qed

lemma unat_sub_2:
  "unat (u - 2 :: 32 word) = (if 2 \<le> unat u then unat u - 2 else unat u + 4294967294)"
  using unat_sub_if_size [of u 2] by (simp add: word_size)

lemma unat_add_2:
  "unat (u + 2 :: 32 word) = (if unat u + 2 < 4294967296 then unat u + 2 else unat u - 4294967294)"
proof -
  have b: "unat u < 4294967296" using unsigned_less [of u] by (simp del: unsigned_less)
  have "unat (u + 2) = (unat u + 2) mod 4294967296"
    by (simp add: unat_word_ariths)
  with b show ?thesis
    by (simp add: mod_if)
qed

lemma reach_temp_leeway_iff:
  "reach_temp_leeway r u \<longleftrightarrow>
     2 \<le> unat u \<and> unat u + 2 < 2 ^ 32 \<and> unat u < unat r + 2 \<and> unat r < unat u + 2"
proof -
  have b: "unat u < 4294967296" "unat r < 4294967296"
    by (rule order_less_le_trans [OF unsigned_less], simp)+
  have "reach_temp_leeway r u \<longleftrightarrow> unat (u - 2) < unat r \<and> unat r < unat (u + 2)"
    by (simp add: reach_temp_leeway_def word_less_nat_alt)
  also have "\<dots> \<longleftrightarrow> 2 \<le> unat u \<and> unat u + 2 < 4294967296 \<and> unat u < unat r + 2 \<and> unat r < unat u + 2"
    using b unfolding unat_sub_2 unat_add_2 by (auto split: if_splits)
  finally show ?thesis by simp
qed

lemma cooldown_target:
  "reach_temp (reflow_phases ! (Reflow_State_val COOLDOWN_STATE - 1)) = 35"
  "reach_temp (reflow_phases ! 4) = 35"
  by (simp_all add: reflow_phases_def)

lemma readTemperature_Some:
  "readTemperature spi = Inr (Some t) \<Longrightarrow> - 8192 \<le> t \<and> t < 8192"
  using MAX31855K_Get_HJ_range [of spi]
  by (auto simp add: readTemperature_def split: sum.splits if_splits)

lemma uint32_le_iff:
  assumes "- 1 < x" "x < 4294967296"
  shows "(word_of_int (float_trunc x) :: 32 word) \<le> w \<longleftrightarrow> x < real (unat w) + 1"
proof -
  have "(word_of_int (float_trunc x) :: 32 word) \<le> w \<longleftrightarrow> nat (float_trunc x) \<le> unat w"
    by (simp add: word_le_nat_alt unat_float_trunc [OF assms])
  also have "\<dots> \<longleftrightarrow> float_trunc x \<le> int (unat w)"
    by linarith
  also have "\<dots> \<longleftrightarrow> x < real (unat w) + 1"
    using float_trunc_le [of "int (unat w)" x] by simp
  finally show ?thesis .
qed

lemma leeway_real:
  assumes "- 1 < t" "t < 8192"
  shows "reach_temp_leeway r (word_of_int (float_trunc t)) \<longleftrightarrow>
     2 \<le> t \<and> real (unat r) - 1 \<le> t \<and> t < real (unat r) + 2"
proof -
  have r: "- 1 < t" "t < 4294967296" using assms by simp_all
  have U: "unat (word_of_int (float_trunc t) :: 32 word) = nat (float_trunc t)"
    by (rule unat_float_trunc [OF r])
  have nn: "0 \<le> float_trunc t" using assms by (simp add: float_trunc_nonneg)
  have ub: "float_trunc t \<le> 8191" using float_trunc_le [of 8191 t] assms by simp
  show ?thesis
  proof (cases "2 \<le> t")
    case False
    then have "float_trunc t \<le> 1" using float_trunc_le [of 1 t] by simp
    then have "\<not> 2 \<le> nat (float_trunc t)" by linarith
    with False show ?thesis by (simp add: reach_temp_leeway_iff U)
  next
    case True
    then have ft: "float_trunc t = \<lfloor>t\<rfloor>" by (simp add: float_trunc_def)
    have two: "2 \<le> \<lfloor>t\<rfloor>" using True by (simp add: le_floor_iff)
    have a: "nat \<lfloor>t\<rfloor> < unat r + 2 \<longleftrightarrow> t < real (unat r) + 2"
    proof -
      have "nat \<lfloor>t\<rfloor> < unat r + 2 \<longleftrightarrow> \<lfloor>t\<rfloor> < int (unat r) + 2" using two by linarith
      also have "\<dots> \<longleftrightarrow> t < real_of_int (int (unat r) + 2)" by (rule floor_less_iff)
      finally show ?thesis by simp
    qed
    have b: "unat r < nat \<lfloor>t\<rfloor> + 2 \<longleftrightarrow> real (unat r) - 1 \<le> t"
    proof -
      have "unat r < nat \<lfloor>t\<rfloor> + 2 \<longleftrightarrow> int (unat r) - 1 \<le> \<lfloor>t\<rfloor>" using two by linarith
      also have "\<dots> \<longleftrightarrow> real_of_int (int (unat r) - 1) \<le> t" by (rule le_floor_iff)
      finally show ?thesis by simp
    qed
    have U': "unat (word_of_int (float_trunc t) :: 32 word) = nat \<lfloor>t\<rfloor>"
      using U ft by simp
    have ub': "\<lfloor>t\<rfloor> \<le> 8191" using ub ft by simp
    have c: "2 \<le> nat \<lfloor>t\<rfloor>" "nat \<lfloor>t\<rfloor> + 2 < 4294967296"
      using two ub' by linarith+
    have "reach_temp_leeway r (word_of_int (float_trunc t)) \<longleftrightarrow>
        nat \<lfloor>t\<rfloor> < unat r + 2 \<and> unat r < nat \<lfloor>t\<rfloor> + 2"
      unfolding reach_temp_leeway_iff U' using c by simp
    then show ?thesis
      unfolding a b using True by auto
  qed
qed

lemma phase_index_ok:
  "s \<noteq> RESET_STATE \<Longrightarrow>
   reflow_phases_at (int (Reflow_State_val s) - 1) = Inr (reflow_phases ! (Reflow_State_val s - 1))"
  by (cases s) (simp_all add: reflow_phases_at_def NUM_PROFILE_PHASES_def NUM_REFLOW_STATES_def)

lemma phase_check_no_oob:
  "state rao \<noteq> RESET_STATE \<Longrightarrow> reflow_phase_check rao t \<noteq> Inl Index_Out_Of_Bounds"
  using phase_index_ok [of "state rao"]
  by (auto simp add: reflow_phase_check_def float_to_uint32_def split: sum.splits)

lemma phase_check_reachtemp:
  assumes "reflow_phases_at (int (Reflow_State_val (state rao)) - 1) = Inr ph"
    and "phase_type ph = REACHTEMP" and "- 1 < t" and "t < 8192"
  shows "reflow_phase_check rao t =
     Inr (if 2 \<le> t \<and> real (unat (reach_temp ph)) - 1 \<le> t \<and> t < real (unat (reach_temp ph)) + 2
          then ([REACH_TEMP_SIG],
                rao\<lparr>reflow_base := snd (Active_post (reflow_base rao) \<lparr>sig = REACH_TEMP_SIG\<rparr>)\<rparr>)
          else ([], rao))"
proof -
  have r: "- 1 < t" "t < 4294967296" using assms by simp_all
  show ?thesis
    using assms(1,2) leeway_real [OF assms(3,4), of "reach_temp ph"]
    by (simp add: reflow_phase_check_def float_to_uint32_Inr [OF r])
qed

lemma leeway_zero: "\<not> reach_temp_leeway r 0"
  by (simp add: reach_temp_leeway_iff)

lemma phase_check_zero:
  assumes "reflow_phases_at (int (Reflow_State_val (state rao)) - 1) = Inr ph"
  shows "reflow_phase_check rao 0 =
     Inr ([], if phase_type ph = REACHTEMP then rao
              else rao\<lparr>setpoint := setpoint rao + step_size rao\<rparr>)"
  using assms
  by (simp add: reflow_phase_check_def float_to_uint32_def float_trunc_def leeway_zero)

lemma frames:
  "readTemperature 0 = Inr None"
  "readTemperature 0x1E40000 = Inr (Some 30.25)"
  "readTemperature 0x2380000 = Inr (Some 35.5)"
  "readTemperature 0x2400000 = Inr (Some 36)"
  "readTemperature 0x6280000 = Inr (Some 98.5)"
  "readTemperature 0x6380000 = Inr (Some 99.5)"
  by (simp_all add: readTemperature_def MAX31855K_RxBlocking_def MAX31855K_error_check_def
      MAX31855K_Get_HJ_def)

lemma Reflow_reset_START_cases:
  "readTemperature spi = Inl f \<Longrightarrow> Reflow_reset_START rao evt spi = Inl f"
  "readTemperature spi = Inr None \<Longrightarrow>
     Reflow_reset_START rao evt spi = Inr (HANDLED_STATUS, rao)"
  "readTemperature spi = Inr (Some t) \<Longrightarrow> t \<le> - 1 \<Longrightarrow>
     Reflow_reset_START rao evt spi = Inl Cast_Out_Of_Range"
  "readTemperature spi = Inr (Some t) \<Longrightarrow> - 1 < t \<Longrightarrow> t < 36 \<Longrightarrow>
     Reflow_reset_START rao evt spi = Inr (TRAN_STATUS, rao\<lparr>state := PREHEAT_STATE\<rparr>)"
  "readTemperature spi = Inr (Some t) \<Longrightarrow> 36 \<le> t \<Longrightarrow>
     Reflow_reset_START rao evt spi = Inr (HANDLED_STATUS, rao)"
proof -
  show "readTemperature spi = Inl f \<Longrightarrow> Reflow_reset_START rao evt spi = Inl f"
    by (simp add: Reflow_reset_START_def)
  show "readTemperature spi = Inr None \<Longrightarrow>
      Reflow_reset_START rao evt spi = Inr (HANDLED_STATUS, rao)"
    by (simp add: Reflow_reset_START_def)
  show "readTemperature spi = Inr (Some t) \<Longrightarrow> t \<le> - 1 \<Longrightarrow>
      Reflow_reset_START rao evt spi = Inl Cast_Out_Of_Range"
    by (simp add: Reflow_reset_START_def float_to_uint32_Inl)
  show "Reflow_reset_START rao evt spi = Inr (TRAN_STATUS, rao\<lparr>state := PREHEAT_STATE\<rparr>)"
    if "readTemperature spi = Inr (Some t)" "- 1 < t" "t < 36"
  proof -
    have r: "- 1 < t" "t < 4294967296" using that by simp_all
    show ?thesis
      using that uint32_le_iff [OF r, of 35]
      by (simp add: Reflow_reset_START_def float_to_uint32_Inr [OF r] cooldown_target
          not_le [symmetric])
  qed
  show "Reflow_reset_START rao evt spi = Inr (HANDLED_STATUS, rao)"
    if "readTemperature spi = Inr (Some t)" "36 \<le> t"
  proof -
    have r: "- 1 < t" "t < 4294967296"
      using that readTemperature_Some [OF that(1)] by simp_all
    show ?thesis
      using that uint32_le_iff [OF r, of 35]
      by (simp add: Reflow_reset_START_def float_to_uint32_Inr [OF r] cooldown_target
          not_le [symmetric])
  qed
qed

subsection \<open>Starting a run\<close>

text \<open>
  Claim C1, as the code has it. In the \<open>RESET\<close> state the action for \<open>START_REFLOW\<close>
  compares the reading converted to \<open>uint32_t\<close> (its integral part) with the target of
  the cool-down phase. For a reading above \<open>-1\<close>, where the conversion is defined, the
  transition to \<open>PREHEAT\<close> with status \<open>TRAN\<close> is taken if and only if the read succeeds
  and the reading is below the target plus one degree; after a failed read, or with a
  reading of at least the target plus one, the action returns \<open>HANDLED\<close> and the
  controller, still in \<open>RESET\<close>, is unchanged.
\<close>

theorem Reflow_reset_START_guard:
  assumes "state rao = RESET_STATE"
  shows
    "(Reflow_state_table (state rao) START_REFLOW_SIG rao evt spi
        = Inr (TRAN_STATUS, rao\<lparr>state := PREHEAT_STATE\<rparr>)
      \<longleftrightarrow> (\<exists>t. readTemperature spi = Inr (Some t) \<and> - 1 < t
             \<and> t < real (unat (reach_temp (reflow_phases ! (Reflow_State_val COOLDOWN_STATE - 1)))) + 1))
     \<and> (\<forall>rao1. Reflow_state_table (state rao) START_REFLOW_SIG rao evt spi = Inr (TRAN_STATUS, rao1)
          \<longrightarrow> rao1 = rao\<lparr>state := PREHEAT_STATE\<rparr>)
     \<and> (readTemperature spi = Inr None
         \<or> (\<exists>t. readTemperature spi = Inr (Some t)
               \<and> real (unat (reach_temp (reflow_phases ! (Reflow_State_val COOLDOWN_STATE - 1)))) + 1 \<le> t)
        \<longrightarrow> Reflow_state_table (state rao) START_REFLOW_SIG rao evt spi = Inr (HANDLED_STATUS, rao)
            \<and> state rao = RESET_STATE)
     \<and> (\<forall>t. readTemperature spi = Inr (Some t) \<and> - 1 < t
        \<longrightarrow> float_to_uint32 t = Inr (word_of_int (float_trunc t))
            \<and> (word_of_int (float_trunc t)
                 \<le> reach_temp (reflow_phases ! (Reflow_State_val COOLDOWN_STATE - 1))
               \<longleftrightarrow> t < real (unat (reach_temp (reflow_phases ! (Reflow_State_val COOLDOWN_STATE - 1)))) + 1))"
proof -
  have tab: "Reflow_state_table (state rao) START_REFLOW_SIG = Reflow_reset_START"
    using assms by simp
  have conv: "float_to_uint32 t = Inr (word_of_int (float_trunc t))
      \<and> ((word_of_int (float_trunc t) :: 32 word) \<le> 35 \<longleftrightarrow> t < 36)"
    if "readTemperature spi = Inr (Some t)" "- 1 < t" for t
  proof -
    have r: "- 1 < t" "t < 4294967296"
      using that readTemperature_Some [OF that(1)] by simp_all
    show ?thesis
      using uint32_le_iff [OF r, of 35] by (simp add: float_to_uint32_Inr [OF r])
  qed
  show ?thesis
  proof (cases "readTemperature spi")
    case (Inl f)
    then show ?thesis
      unfolding tab using Reflow_reset_START_cases(1) [OF Inl, of rao evt] by simp
  next
    case (Inr r)
    show ?thesis
    proof (cases r)
      case None
      with Inr have n: "readTemperature spi = Inr None" by simp
      show ?thesis
        unfolding tab using Reflow_reset_START_cases(2) [OF n, of rao evt] n assms by simp
    next
      case (Some t)
      with Inr have s: "readTemperature spi = Inr (Some t)" by simp
      consider "t \<le> - 1" | "- 1 < t" "t < 36" | "36 \<le> t" by linarith
      then show ?thesis
      proof cases
        case 1
        then show ?thesis
          unfolding tab using Reflow_reset_START_cases(3) [OF s 1, of rao evt] s
          by (simp add: cooldown_target)
      next
        case 2
        then show ?thesis
          unfolding tab using Reflow_reset_START_cases(4) [OF s 2, of rao evt] s conv [OF s 2(1)]
          by (simp add: cooldown_target)
      next
        case 3
        then have "- 1 < t" by simp
        with 3 show ?thesis
          unfolding tab using Reflow_reset_START_cases(5) [OF s 3, of rao evt] s conv [OF s]
            assms
          by (simp add: cooldown_target)
      qed
    qed
  qed
qed

theorem Reflow_reset_START_guard_witness:
  "state reflow_ao_started = RESET_STATE
   \<and> readTemperature 0x1E40000 = Inr (Some 30.25)
   \<and> Reflow_state_table RESET_STATE START_REFLOW_SIG reflow_ao_started
        (Some \<lparr>sig = START_REFLOW_SIG\<rparr>) 0x1E40000
       = Inr (TRAN_STATUS, reflow_ao_started\<lparr>state := PREHEAT_STATE\<rparr>)
   \<and> readTemperature 0x2400000 = Inr (Some 36)
   \<and> Reflow_state_table RESET_STATE START_REFLOW_SIG reflow_ao_started
        (Some \<lparr>sig = START_REFLOW_SIG\<rparr>) 0x2400000
       = Inr (HANDLED_STATUS, reflow_ao_started)"
proof -
  have st: "state reflow_ao_started = RESET_STATE"
    by (simp add: reflow_ao_started_def)
  have cold: "\<exists>t. readTemperature 0x1E40000 = Inr (Some t) \<and> - 1 < t
      \<and> t < real (unat (reach_temp (reflow_phases ! (Reflow_State_val COOLDOWN_STATE - 1)))) + 1"
    by (rule exI [of _ "30.25"]) (simp add: frames cooldown_target)
  have hot: "readTemperature 0x2400000 = Inr None
      \<or> (\<exists>t. readTemperature 0x2400000 = Inr (Some t)
            \<and> real (unat (reach_temp (reflow_phases ! (Reflow_State_val COOLDOWN_STATE - 1)))) + 1 \<le> t)"
    by (rule disjI2, rule exI [of _ "36"]) (simp add: frames cooldown_target)
  have a: "Reflow_state_table (state reflow_ao_started) START_REFLOW_SIG reflow_ao_started
        (Some \<lparr>sig = START_REFLOW_SIG\<rparr>) 0x1E40000
       = Inr (TRAN_STATUS, reflow_ao_started\<lparr>state := PREHEAT_STATE\<rparr>)"
    using Reflow_reset_START_guard [OF st, of "Some \<lparr>sig = START_REFLOW_SIG\<rparr>" "0x1E40000"] cold
    by blast
  have b: "Reflow_state_table (state reflow_ao_started) START_REFLOW_SIG reflow_ao_started
        (Some \<lparr>sig = START_REFLOW_SIG\<rparr>) 0x2400000
       = Inr (HANDLED_STATUS, reflow_ao_started)"
    using Reflow_reset_START_guard [OF st, of "Some \<lparr>sig = START_REFLOW_SIG\<rparr>" "0x2400000"] hot
    by blast
  from a b show ?thesis
    unfolding st by (intro conjI) (rule refl frames | assumption)+
qed

text \<open>
  A reading of 35.5 degrees is above the cool-down target of 35 degrees, and the
  transition is taken.
\<close>

theorem Reflow_reset_START_guard_counterexample:
  "state reflow_ao_started = RESET_STATE
   \<and> readTemperature 0x2380000 = Inr (Some 35.5)
   \<and> \<not> (35.5 :: real) \<le> real (unat (reach_temp (reflow_phases ! (Reflow_State_val COOLDOWN_STATE - 1))))
   \<and> Reflow_state_table RESET_STATE START_REFLOW_SIG reflow_ao_started
        (Some \<lparr>sig = START_REFLOW_SIG\<rparr>) 0x2380000
       = Inr (TRAN_STATUS, reflow_ao_started\<lparr>state := PREHEAT_STATE\<rparr>)"
  using Reflow_reset_START_cases(4) [OF frames(3), of reflow_ao_started
      "Some \<lparr>sig = START_REFLOW_SIG\<rparr>"]
  by (simp add: frames cooldown_target reflow_ao_started_def)

subsection \<open>The control tick\<close>

lemma reflow_pid_iteration_posts:
  assumes "reflow_phases_at (int (Reflow_State_val (state rao)) - 1) = Inr ph"
    and "phase_type ph = REACHTEMP"
    and "readTemperature spi = Inr (Some t)" and "- 1 < t"
  shows "fst (reflow_pid_iteration rao spi) =
     (if 2 \<le> t \<and> real (unat (reach_temp ph)) - 1 \<le> t \<and> t < real (unat (reach_temp ph)) + 2
      then [REACH_TEMP_SIG] else [])"
proof -
  have "t < 8192" using readTemperature_Some [OF assms(3)] by simp
  from phase_check_reachtemp [OF assms(1,2,4) this] assms(3) show ?thesis
    by (simp add: reflow_pid_iteration_def Let_def split_beta split: sum.splits)
qed

lemma preheat_phase:
  "reflow_phases_at (int (Reflow_State_val (state rao_preheat)) - 1)
     = Inr \<lparr>phase_type = REACHTEMP, reach_temp = 100, reach_time = 0\<rparr>"
  by (simp add: rao_preheat_def reflow_ao_started_def reflow_phases_at_def reflow_phases_def
      NUM_PROFILE_PHASES_def NUM_REFLOW_STATES_def)

text \<open>
  Claim C2, as the code has it. In a control tick whose phase is of kind \<open>REACHTEMP\<close>,
  with a successful reading \<open>t\<close> above \<open>-1\<close> (where the conversion to \<open>uint32_t\<close> is
  defined), the signals posted are \<open>REACH_TEMP\<close> alone if \<open>2 \<le> t\<close> and
  \<open>target - 1 \<le> t < target + 2\<close>, and none otherwise: the integral part of the reading
  differs from the target by at most one. For a reading below 2 the unsigned subtraction
  wraps around and nothing is posted.
\<close>

theorem reflow_pid_iteration_reach_temp:
  assumes "reflow_phases_at (int (Reflow_State_val (state rao)) - 1) = Inr ph"
    and "phase_type ph = REACHTEMP"
    and "readTemperature spi = Inr (Some t)" and "- 1 < t"
  shows "fst (reflow_pid_iteration rao spi) =
       (if 2 \<le> t \<and> real (unat (reach_temp ph)) - 1 \<le> t \<and> t < real (unat (reach_temp ph)) + 2
        then [REACH_TEMP_SIG] else [])
     \<and> float_to_uint32 t = Inr (word_of_int (float_trunc t))
     \<and> (reach_temp_leeway (reach_temp ph) (word_of_int (float_trunc t))
        \<longleftrightarrow> 2 \<le> t \<and> real (unat (reach_temp ph)) - 1 \<le> t \<and> t < real (unat (reach_temp ph)) + 2)"
proof -
  have r: "- 1 < t" "t < 8192" "t < 4294967296"
    using assms(4) readTemperature_Some [OF assms(3)] by simp_all
  show ?thesis
    using reflow_pid_iteration_posts [OF assms] leeway_real [OF r(1,2), of "reach_temp ph"]
      float_to_uint32_Inr [OF r(1,3)]
    by simp
qed

theorem reflow_pid_iteration_reach_temp_witness:
  "reflow_phases_at (int (Reflow_State_val (state rao_preheat)) - 1)
     = Inr \<lparr>phase_type = REACHTEMP, reach_temp = 100, reach_time = 0\<rparr>
   \<and> readTemperature 0x6380000 = Inr (Some 99.5) \<and> (- 1 :: real) < 99.5
   \<and> fst (reflow_pid_iteration rao_preheat 0x6380000) = [REACH_TEMP_SIG]"
proof -
  have a: "phase_type \<lparr>phase_type = REACHTEMP, reach_temp = 100, reach_time = 0\<rparr> = REACHTEMP"
    by simp
  have b: "(- 1 :: real) < 99.5" by simp
  have p: "fst (reflow_pid_iteration rao_preheat 0x6380000) = [REACH_TEMP_SIG]"
    using reflow_pid_iteration_reach_temp [OF preheat_phase a frames(6) b] by simp
  show ?thesis
    by (intro conjI) (rule preheat_phase frames(6) b p)+
qed

text \<open>
  A reading of 98.5 degrees is within 2 degrees of the pre-heat target of 100 degrees,
  and \<open>REACH_TEMP\<close> is not posted.
\<close>

theorem reflow_pid_iteration_reach_temp_counterexample:
  "state rao_preheat = PREHEAT_STATE
   \<and> reflow_phases_at (int (Reflow_State_val (state rao_preheat)) - 1)
     = Inr \<lparr>phase_type = REACHTEMP, reach_temp = 100, reach_time = 0\<rparr>
   \<and> readTemperature 0x6280000 = Inr (Some 98.5)
   \<and> \<bar>(98.5 :: real) - real (unat (100 :: 32 word))\<bar> < 2
   \<and> fst (reflow_pid_iteration rao_preheat 0x6280000) = []"
proof -
  have a: "phase_type \<lparr>phase_type = REACHTEMP, reach_temp = 100, reach_time = 0\<rparr> = REACHTEMP"
    by simp
  have b: "(- 1 :: real) < 98.5" by simp
  have st: "state rao_preheat = PREHEAT_STATE"
    by (simp add: rao_preheat_def)
  have p: "fst (reflow_pid_iteration rao_preheat 0x6280000) = []"
    using reflow_pid_iteration_posts [OF preheat_phase a frames(5) b] by simp
  have d: "\<bar>(98.5 :: real) - real (unat (100 :: 32 word))\<bar> < 2"
    by simp
  show ?thesis
    by (intro conjI) (rule st preheat_phase frames(5) d p)+
qed

text \<open>
  Claim C8. In every state but \<open>RESET\<close> the index \<open>state - 1\<close> of the control tick into
  the array of profile phases lies in \<open>[0, NUM_PROFILE_PHASES)\<close>, the array has that
  many elements, the lookup yields the phase of the state, and \<open>reflow_pid_iteration\<close>
  never reads outside the array.
\<close>

theorem phase_index_in_bounds:
  assumes "state rao \<noteq> RESET_STATE"
  shows "0 \<le> int (Reflow_State_val (state rao)) - 1
     \<and> int (Reflow_State_val (state rao)) - 1 < int NUM_PROFILE_PHASES
     \<and> length reflow_phases = NUM_PROFILE_PHASES
     \<and> reflow_phases_at (int (Reflow_State_val (state rao)) - 1)
         = Inr (reflow_phases ! (Reflow_State_val (state rao) - 1))
     \<and> snd (reflow_pid_iteration rao spi) \<noteq> Inl Index_Out_Of_Bounds"
proof -
  have a: "0 \<le> int (Reflow_State_val (state rao)) - 1
     \<and> int (Reflow_State_val (state rao)) - 1 < int NUM_PROFILE_PHASES"
    using assms by (cases "state rao") (simp_all add: NUM_PROFILE_PHASES_def NUM_REFLOW_STATES_def)
  have b: "length reflow_phases = NUM_PROFILE_PHASES"
    by (simp add: reflow_phases_def NUM_PROFILE_PHASES_def NUM_REFLOW_STATES_def)
  have rt: "readTemperature spi \<noteq> Inl Index_Out_Of_Bounds"
    by (simp add: readTemperature_def MAX31855K_RxBlocking_def MAX31855K_error_check_def Let_def
        split: sum.splits)
  have c16: "float_to_uint16 x \<noteq> Inl Index_Out_Of_Bounds" for x
    by (simp add: float_to_uint16_def)
  have st: "state (rao\<lparr>reflow_base := q\<rparr>) \<noteq> RESET_STATE" for q
    using assms by simp
  have "snd (reflow_pid_iteration rao spi) \<noteq> Inl Index_Out_Of_Bounds"
    using rt phase_check_no_oob [OF assms] phase_check_no_oob [OF st] c16
    by (auto simp add: reflow_pid_iteration_def Let_def split_beta split: sum.splits)
  with a b phase_index_ok [OF assms] show ?thesis by simp
qed

theorem phase_index_in_bounds_witness:
  "state rao_soak \<noteq> RESET_STATE
   \<and> int (Reflow_State_val (state rao_soak)) - 1 = 1
   \<and> reflow_phases_at (int (Reflow_State_val (state rao_soak)) - 1)
       = Inr \<lparr>phase_type = REACHTIME, reach_temp = 150, reach_time = 120\<rparr>
   \<and> snd (reflow_pid_iteration rao_soak 0x6380000) \<noteq> Inl Index_Out_Of_Bounds"
proof -
  have st: "state rao_soak \<noteq> RESET_STATE" "state rao_soak = SOAK_STATE"
    by (simp_all add: rao_soak_def)
  show ?thesis
    using phase_index_in_bounds [OF st(1), of "0x6380000"]
    by (simp add: st reflow_phases_def)
qed

text \<open>
  Claim C10. When the read fails in a state other than \<open>RESET\<close>, \<open>reflow_pid_iteration\<close>
  posts \<open>STOP_REFLOW\<close> and nothing else, and goes on: the phase block runs on the
  measurement 0 (a \<open>REACHTIME\<close> phase advances the setpoint by the step size, a
  \<open>REACHTEMP\<close> phase posts nothing), one PID iteration is computed with the measurement
  0 and stored, and its output, converted to \<open>uint16_t\<close>, is written to the compare
  register. The conversion is defined when the output limits are ordered and lie in
  the range of \<open>uint16_t\<close>.
\<close>

theorem reflow_pid_iteration_read_failure:
  assumes "readTemperature spi = Inr None" and "state rao \<noteq> RESET_STATE"
  shows "reflow_pid_iteration rao spi =
       ([STOP_REFLOW_SIG],
        case float_to_uint16
               (fst (PID_Calculate (pid_params rao)
                  (if phase_type (reflow_phases ! (Reflow_State_val (state rao) - 1)) = REACHTEMP
                   then setpoint rao else setpoint rao + step_size rao) 0)) of
          Inl f \<Rightarrow> Inl f
        | Inr c \<Rightarrow>
            Inr (rao\<lparr>reflow_base := snd (Active_post (reflow_base rao) \<lparr>sig = STOP_REFLOW_SIG\<rparr>),
                    setpoint :=
                      (if phase_type (reflow_phases ! (Reflow_State_val (state rao) - 1)) = REACHTEMP
                       then setpoint rao else setpoint rao + step_size rao),
                    pid_params :=
                      snd (PID_Calculate (pid_params rao)
                        (if phase_type (reflow_phases ! (Reflow_State_val (state rao) - 1)) = REACHTEMP
                         then setpoint rao else setpoint rao + step_size rao) 0),
                    pwm_compare := ucast c\<rparr>))
     \<and> (out_lim_min (pid_params rao) \<le> out_lim_max (pid_params rao)
        \<and> - 1 < out_lim_min (pid_params rao) \<and> out_lim_max (pid_params rao) < 65536
        \<longrightarrow> (\<exists>rao1. snd (reflow_pid_iteration rao spi) = Inr rao1))"
proof -
  let ?rao1 = "rao\<lparr>reflow_base := snd (Active_post (reflow_base rao) \<lparr>sig = STOP_REFLOW_SIG\<rparr>)\<rparr>"
  let ?sp = "if phase_type (reflow_phases ! (Reflow_State_val (state rao) - 1)) = REACHTEMP
             then setpoint rao else setpoint rao + step_size rao"
  have "reflow_phases_at (int (Reflow_State_val (state ?rao1)) - 1)
      = Inr (reflow_phases ! (Reflow_State_val (state rao) - 1))"
    using phase_index_ok [OF assms(2)] by simp
  from phase_check_zero [OF this] assms(1) have run: "reflow_pid_iteration rao spi =
       ([STOP_REFLOW_SIG],
        case float_to_uint16 (fst (PID_Calculate (pid_params rao) ?sp 0)) of
          Inl f \<Rightarrow> Inl f
        | Inr c \<Rightarrow>
            Inr (rao\<lparr>reflow_base := snd (Active_post (reflow_base rao) \<lparr>sig = STOP_REFLOW_SIG\<rparr>),
                    setpoint := ?sp,
                    pid_params := snd (PID_Calculate (pid_params rao) ?sp 0),
                    pwm_compare := ucast c\<rparr>))"
    by (simp add: reflow_pid_iteration_def Let_def split_beta split: sum.splits)
  have "\<exists>c. float_to_uint16 (fst (PID_Calculate (pid_params rao) ?sp 0)) = Inr c"
    if "out_lim_min (pid_params rao) \<le> out_lim_max (pid_params rao)"
      "- 1 < out_lim_min (pid_params rao)" "out_lim_max (pid_params rao) < 65536"
    using that PID_Calculate_clamped [of "pid_params rao" ?sp 0]
      float_trunc_le [of 65535 "fst (PID_Calculate (pid_params rao) ?sp 0)"]
    by (simp add: float_to_uint16_def float_trunc_nonneg)
  then show ?thesis
    unfolding run by auto
qed

theorem reflow_pid_iteration_read_failure_witness:
  "readTemperature 0 = Inr None \<and> state rao_soak \<noteq> RESET_STATE
   \<and> fst (reflow_pid_iteration rao_soak 0) = [STOP_REFLOW_SIG]
   \<and> map_sum id pwm_compare (snd (reflow_pid_iteration rao_soak 0)) = Inr 1010
   \<and> map_sum id setpoint (snd (reflow_pid_iteration rao_soak 0)) = Inr 101
   \<and> map_sum id (prev_error \<circ> pid_params) (snd (reflow_pid_iteration rao_soak 0)) = Inr 101"
proof -
  have st: "state rao_soak \<noteq> RESET_STATE"
    by (simp add: rao_soak_def)
  have ph: "(if phase_type (reflow_phases ! (Reflow_State_val (state rao_soak) - 1)) = REACHTEMP
             then setpoint rao_soak else setpoint rao_soak + step_size rao_soak) = 101"
    by (simp add: rao_soak_def reflow_phases_def)
  have pid: "PID_Calculate (pid_params rao_soak) 101 0
      = (1010, (pid_params rao_soak)\<lparr>proportional := 1010, integral := 0, derivative := 0,
           out := 1010, prev_error := 101, prev_measurement := 0\<rparr>)"
    by (simp add: rao_soak_def reflow_ao_started_def PID_Init_def PID_Reset_def
        reflow_pid_cfg_def PID_Calculate_def Let_def SAMESIGN_def)
  have c: "float_to_uint16 1010 = Inr 1010"
    by (simp add: float_to_uint16_def float_trunc_def)
  note run = reflow_pid_iteration_read_failure [OF frames(1) st, THEN conjunct1, unfolded ph]
  have r: "fst (reflow_pid_iteration rao_soak 0) = [STOP_REFLOW_SIG]"
    "map_sum id pwm_compare (snd (reflow_pid_iteration rao_soak 0)) = Inr 1010"
    "map_sum id setpoint (snd (reflow_pid_iteration rao_soak 0)) = Inr 101"
    "map_sum id (prev_error \<circ> pid_params) (snd (reflow_pid_iteration rao_soak 0)) = Inr 101"
    unfolding run by (simp_all add: pid c)
  show ?thesis
    by (intro conjI) (rule frames(1) st r)+
qed

subsection \<open>The event handler\<close>

lemma entry_status:
  "Reflow_state_table s ENTRY_SIG rao evt spi = Inr (stat, rao1) \<Longrightarrow> stat = HANDLED_STATUS"
  by (cases s)
    (auto simp add: Reflow_reset_ENTRY_def Reflow_preheat_ENTRY_def Reflow_soak_ENTRY_def
      Reflow_rampup_ENTRY_def Reflow_peak_ENTRY_def Reflow_cooldown_ENTRY_def Let_def split_beta
      split: sum.splits)

text \<open>
  Claim C4. For every state and event, when the action of the cell returns a status, the
  handler invokes that action and then, if the status is \<open>TRAN\<close> or \<open>INIT\<close>, the entry
  action of the state the action left, once, and returns what it leaves; if the status
  is \<open>HANDLED\<close> or \<open>IGNORE\<close>, the handler invokes nothing more. For an event other than
  \<open>ENTRY_SIG\<close> (which is never posted) the cells of the \<open>ENTRY_SIG\<close> column among the
  invoked ones number one and zero respectively.
\<close>

theorem reflow_evt_handler_entry_once:
  assumes "Reflow_state_table (state rao) (sig evt) rao (Some evt) spi = Inr (stat, rao1)"
  shows "fst (reflow_evt_handler rao evt spi) =
       (state rao, sig evt) #
       (if stat = TRAN_STATUS \<or> stat = INIT_STATUS then [(state rao1, ENTRY_SIG)] else [])
     \<and> snd (reflow_evt_handler rao evt spi) =
       (if stat = TRAN_STATUS \<or> stat = INIT_STATUS
        then map_sum id snd (Reflow_state_table (state rao1) ENTRY_SIG rao1 None spi)
        else Inr rao1)
     \<and> (sig evt \<noteq> ENTRY_SIG \<longrightarrow>
          count_list (map snd (fst (reflow_evt_handler rao evt spi))) ENTRY_SIG =
            (if stat = TRAN_STATUS \<or> stat = INIT_STATUS then 1 else 0))"
  using assms by (simp add: reflow_evt_handler_def)

theorem reflow_evt_handler_entry_once_witness:
  "Reflow_state_table (state rao_preheat) (sig \<lparr>sig = REACH_TEMP_SIG\<rparr>) rao_preheat
       (Some \<lparr>sig = REACH_TEMP_SIG\<rparr>) 0x6380000
     = Inr (TRAN_STATUS, rao_preheat\<lparr>state := SOAK_STATE\<rparr>)
   \<and> fst (reflow_evt_handler rao_preheat \<lparr>sig = REACH_TEMP_SIG\<rparr> 0x6380000)
     = [(PREHEAT_STATE, REACH_TEMP_SIG), (SOAK_STATE, ENTRY_SIG)]
   \<and> count_list (map snd (fst (reflow_evt_handler rao_preheat \<lparr>sig = REACH_TEMP_SIG\<rparr> 0x6380000)))
        ENTRY_SIG = 1
   \<and> Reflow_state_table (state rao_preheat) (sig \<lparr>sig = START_REFLOW_SIG\<rparr>) rao_preheat
       (Some \<lparr>sig = START_REFLOW_SIG\<rparr>) 0x6380000
     = Inr (IGNORE_STATUS, rao_preheat)
   \<and> reflow_evt_handler rao_preheat \<lparr>sig = START_REFLOW_SIG\<rparr> 0x6380000
     = ([(PREHEAT_STATE, START_REFLOW_SIG)], Inr rao_preheat)"
proof -
  have st: "state rao_preheat = PREHEAT_STATE"
    by (simp add: rao_preheat_def)
  have a: "Reflow_state_table (state rao_preheat) (sig \<lparr>sig = REACH_TEMP_SIG\<rparr>) rao_preheat
       (Some \<lparr>sig = REACH_TEMP_SIG\<rparr>) 0x6380000
     = Inr (TRAN_STATUS, rao_preheat\<lparr>state := SOAK_STATE\<rparr>)"
    by (simp add: st Reflow_preheat_REACHTEMP_def)
  have b: "Reflow_state_table (state rao_preheat) (sig \<lparr>sig = START_REFLOW_SIG\<rparr>) rao_preheat
       (Some \<lparr>sig = START_REFLOW_SIG\<rparr>) 0x6380000
     = Inr (IGNORE_STATUS, rao_preheat)"
    by (simp add: st Reflow_ignore_def)
  show ?thesis
    using reflow_evt_handler_entry_once [OF a] reflow_evt_handler_entry_once [OF b] a b
    by (simp add: st prod_eq_iff)
qed

text \<open>
  Claim C6. In each of the states \<open>PREHEAT\<close>, \<open>SOAK\<close>, \<open>RAMPUP\<close>, \<open>PEAK\<close> and \<open>COOLDOWN\<close>
  the action for \<open>STOP_REFLOW\<close> stops the PID timer, sets the state to \<open>RESET\<close> and
  returns \<open>TRAN\<close>; the handler then runs the entry action of \<open>RESET\<close>, which sets the
  compare register to zero and stops the PWM output, resets the PID memory, stops the
  PID timer and disarms the time event. In \<open>RESET\<close> the event is ignored and the
  controller is unchanged.
\<close>

theorem Reflow_STOP_to_reset:
  "(state rao \<noteq> RESET_STATE \<longrightarrow>
      Reflow_state_table (state rao) STOP_REFLOW_SIG rao (Some \<lparr>sig = STOP_REFLOW_SIG\<rparr>) spi
        = Inr (TRAN_STATUS, rao\<lparr>pid_timer := None, state := RESET_STATE\<rparr>)
      \<and> reflow_evt_handler rao \<lparr>sig = STOP_REFLOW_SIG\<rparr> spi =
          ([(state rao, STOP_REFLOW_SIG), (RESET_STATE, ENTRY_SIG)],
           Inr (rao\<lparr>pid_timer := None, state := RESET_STATE, pwm_compare := 0,
                   pwm_running := False, pid_params := PID_Reset (pid_params rao),
                   reflow_time_evt := TimeEvent_disarm (reflow_time_evt rao)\<rparr>)))
   \<and> (state rao = RESET_STATE \<longrightarrow>
      Reflow_state_table (state rao) STOP_REFLOW_SIG rao (Some \<lparr>sig = STOP_REFLOW_SIG\<rparr>) spi
        = Inr (IGNORE_STATUS, rao)
      \<and> reflow_evt_handler rao \<lparr>sig = STOP_REFLOW_SIG\<rparr> spi
          = ([(RESET_STATE, STOP_REFLOW_SIG)], Inr rao))"
  by (cases "state rao")
    (simp_all add: reflow_evt_handler_def Reflow_STOP_def Reflow_ignore_def Reflow_reset_ENTRY_def)

theorem Reflow_STOP_to_reset_witness:
  "state rao_soak \<noteq> RESET_STATE
   \<and> fst (reflow_evt_handler rao_soak \<lparr>sig = STOP_REFLOW_SIG\<rparr> 0)
       = [(SOAK_STATE, STOP_REFLOW_SIG), (RESET_STATE, ENTRY_SIG)]
   \<and> map_sum id state (snd (reflow_evt_handler rao_soak \<lparr>sig = STOP_REFLOW_SIG\<rparr> 0))
       = Inr RESET_STATE
   \<and> map_sum id pid_timer (snd (reflow_evt_handler rao_soak \<lparr>sig = STOP_REFLOW_SIG\<rparr> 0))
       = Inr None
   \<and> state reflow_ao_started = RESET_STATE
   \<and> reflow_evt_handler reflow_ao_started \<lparr>sig = STOP_REFLOW_SIG\<rparr> 0
       = ([(RESET_STATE, STOP_REFLOW_SIG)], Inr reflow_ao_started)"
proof -
  have st: "state rao_soak = SOAK_STATE" "state reflow_ao_started = RESET_STATE"
    by (simp_all add: rao_soak_def reflow_ao_started_def)
  show ?thesis
    using Reflow_STOP_to_reset [of rao_soak 0] Reflow_STOP_to_reset [of reflow_ao_started 0]
    by (simp add: st)
qed

end
